theory Spec2Isabelle
  imports Main
begin

section \<open>Data model of Carillon.py\<close>

text \<open>
  An event of the schedule is the seven-element Python list built at lines 216-223 of
  Carillon.py: the hard date string (empty for a weekday rule), the start and end weekday
  numbers, the start and end hours, the minute, and the file name as the user typed it.
  Python integers are unbounded, hence \<open>int\<close>.
\<close>

record event =
  ev_date :: string
  start_day :: int
  end_day :: int
  start_hour :: int
  end_hour :: int
  ev_minute :: int
  ev_file :: string

text \<open>
  What \<open>datetime.datetime.now()\<close> is asked for by the playout thread: \<open>strftime("%x")\<close>,
  \<open>int(strftime("%w"))\<close>, \<open>int(strftime("%H"))\<close> and \<open>int(strftime("%M"))\<close>. The source reads
  the clock anew in every test; the model evaluates one event against one reading.
\<close>

record timestamp =
  now_x :: string
  now_w :: int
  now_H :: int
  now_M :: int

definition file_path :: string where
  "file_path = ''/home/dave/Carillon/''"

definition default_schedule :: "event list" where
  "default_schedule =
    [\<lparr>ev_date = '''', start_day = 0, end_day = 6, start_hour = 0, end_hour = 23,
       ev_minute = 59, ev_file = ''Hour''\<rparr>,
     \<lparr>ev_date = '''', start_day = 0, end_day = 6, start_hour = 0, end_hour = 23,
       ev_minute = 0, ev_file = ''Strike''\<rparr>,
     \<lparr>ev_date = '''', start_day = 0, end_day = 6, start_hour = 0, end_hour = 23,
       ev_minute = 15, ev_file = ''Quarter''\<rparr>,
     \<lparr>ev_date = '''', start_day = 0, end_day = 6, start_hour = 0, end_hour = 23,
       ev_minute = 30, ev_file = ''Half''\<rparr>,
     \<lparr>ev_date = '''', start_day = 0, end_day = 6, start_hour = 0, end_hour = 23,
       ev_minute = 45, ev_file = ''ThreeQuarter''\<rparr>]"

section \<open>Python primitives used by the program\<close>

datatype py_error = IndexError | ValueError

text \<open>\<open>str(n)\<close> for an integer: decimal digits, a leading minus sign when negative.\<close>

definition digit_char :: "nat \<Rightarrow> char" where
  "digit_char d = ''0123456789'' ! (d mod 10)"

function str_nat :: "nat \<Rightarrow> string" where
  "str_nat n = (if n < 10 then [digit_char n] else str_nat (n div 10) @ [digit_char n])"
  by pat_completeness auto
termination
  by (relation "measure (\<lambda>n. n)") auto

declare str_nat.simps [simp del]

definition str_int :: "int \<Rightarrow> string" where
  "str_int i = (if i < 0 then CHR ''-'' # str_nat (nat (- i)) else str_nat (nat i))"

text \<open>
  \<open>xs[i]\<close>, \<open>xs[i] = v\<close> and \<open>xs.pop(i)\<close> on a Python list: a negative index counts from the
  end, and an index outside \<open>-len(xs) .. len(xs)-1\<close> raises IndexError.
\<close>

definition py_norm :: "'a list \<Rightarrow> int \<Rightarrow> py_error + nat" where
  "py_norm xs i =
     (let n = int (length xs); j = (if i < 0 then i + n else i)
      in if 0 \<le> j \<and> j < n then Inr (nat j) else Inl IndexError)"

definition py_get :: "'a list \<Rightarrow> int \<Rightarrow> py_error + 'a" where
  "py_get xs i = (case py_norm xs i of Inl e \<Rightarrow> Inl e | Inr j \<Rightarrow> Inr (xs ! j))"

definition py_set :: "'a list \<Rightarrow> int \<Rightarrow> 'a \<Rightarrow> py_error + 'a list" where
  "py_set xs i v = (case py_norm xs i of Inl e \<Rightarrow> Inl e | Inr j \<Rightarrow> Inr (xs[j := v]))"

definition py_pop :: "'a list \<Rightarrow> int \<Rightarrow> py_error + 'a list" where
  "py_pop xs i =
     (case py_norm xs i of Inl e \<Rightarrow> Inl e | Inr j \<Rightarrow> Inr (take j xs @ drop (Suc j) xs))"

section \<open>The matcher of the playout thread\<close>

text \<open>
  Lines 299-318 of \<open>playout\<close>: the chain of tests, each of which \<open>continue\<close>s to the next
  event. \<open>is_due\<close> is True when none of them fires, that is, when the event is played.
\<close>

definition is_due :: "event \<Rightarrow> timestamp \<Rightarrow> bool" where
  "is_due e t =
     (if ev_date e \<noteq> '''' \<and> now_x t \<noteq> ev_date e then False
      else if start_day e < 8 \<and> now_w t < start_day e then False
      else if end_day e < 8 \<and> now_w t > end_day e then False
      else if now_H t < start_hour e then False
      else if now_H t > end_hour e then False
      else if now_M t \<noteq> ev_minute e then False
      else True)"

text \<open>Lines 321-331: the file handed to \<open>playsound\<close> for an event that is due.\<close>

definition strike_hour :: "int \<Rightarrow> int" where
  "strike_hour h = (let hour = h mod 12 in if hour = 0 then 12 else hour)"

definition sound_of :: "event \<Rightarrow> timestamp \<Rightarrow> string" where
  "sound_of e t =
     (if ev_file e = ''Strike''
      then file_path @ ''Strike'' @ str_int (strike_hour (now_H t)) @ ''.mp3''
      else file_path @ ev_file e @ ''.mp3'')"

section \<open>Messages and the schedule display\<close>

text \<open>
  What the two threads print, one constructor for each \<open>print\<close> site of the program (the
  numbers and strings are those the message shows). \<open>Schedule_text\<close> is the output of one
  complete run of \<open>show_schedule\<close>.
\<close>

datatype message =
    Instructions
  | Schedule_text string
  | Prompt
  | Err_line_number
  | No_line int
  | Err_five_items
  | Err_date
  | Err_month int
  | Err_day int
  | Err_year int
  | Err_weekday_list
  | Err_weekday
  | Err_hour_range
  | Err_start_numeric string
  | Err_start_hour int
  | Err_end_numeric string
  | Err_end_hour int
  | Err_minute int
  | Err_missing string
  | Err_not_readable string
  | Err_not_found string
  | Unanticipated
  | Internal_error
  | Event_report int event
  | Event_deleted int

definition day_list :: "string list" where
  "day_list = [''su'', ''mo'', ''tu'', ''we'', ''th'', ''fr'', ''sa'']"

definition day_dict :: "string \<Rightarrow> int option" where
  "day_dict = map_of [(''su'', 0), (''mo'', 1), (''tu'', 2), (''we'', 3), (''th'', 4),
     (''fr'', 5), (''sa'', 6)]"

text \<open>
  \<open>show_schedule\<close>, lines 244-271. \<open>day_list[...]\<close> raises IndexError for a weekday number
  outside \<open>-7..6\<close>; the text printed before the error is not kept.
\<close>

definition show_days :: "event \<Rightarrow> py_error + string" where
  "show_days e =
     (if ev_date e \<noteq> '''' then Inr (ev_date e @ '' '')
      else case py_get day_list (start_day e) of
             Inl x \<Rightarrow> Inl x
           | Inr d1 \<Rightarrow>
               (case py_get day_list (end_day e) of
                  Inl x \<Rightarrow> Inl x
                | Inr d2 \<Rightarrow> Inr (d1 @ (if d2 \<noteq> d1 then ''-'' @ d2 @ '' '' else '' ''))))"

definition show_event :: "nat \<Rightarrow> event \<Rightarrow> py_error + string" where
  "show_event i e =
     (case show_days e of
        Inl x \<Rightarrow> Inl x
      | Inr days \<Rightarrow>
          Inr (str_int (int i + 1) @ '': '' @ days @ str_int (start_hour e)
               @ (if start_hour e \<noteq> end_hour e then ''-'' @ str_int (end_hour e) @ '' ''
                  else '' '')
               @ str_int (ev_minute e) @ '' '' @ ev_file e @ [CHR 0x0A]))"

fun show_events :: "nat \<Rightarrow> event list \<Rightarrow> py_error + string" where
  "show_events i [] = Inr []"
| "show_events i (e # es) =
     (case show_event i e of
        Inl x \<Rightarrow> Inl x
      | Inr l \<Rightarrow> (case show_events (Suc i) es of Inl x \<Rightarrow> Inl x | Inr ls \<Rightarrow> Inr (l @ ls)))"

definition show_schedule :: "event list \<Rightarrow> py_error + string" where
  "show_schedule schedule =
     (case show_events 0 schedule of
        Inl x \<Rightarrow> Inl x
      | Inr ls \<Rightarrow> Inr (''Day(s) Hr(s) Min Tune'' @ [CHR 0x0A] @ ls))"

section \<open>One tick of the playout thread\<close>

text \<open>
  The thread asks \<open>datetime.datetime.now()\<close> anew in every test of every event, and
  \<open>playsound\<close> blocks in between, so the readings of one tick may differ. \<open>clock k\<close> is the
  \<open>k\<close>-th reading of the clock in the tick, and every function below returns, with its
  result, the number of the next reading. A test guarded by \<open>and\<close> reads the clock only
  when its guard holds.
\<close>

definition due_now :: "(nat \<Rightarrow> timestamp) \<Rightarrow> nat \<Rightarrow> event \<Rightarrow> bool \<times> nat" where
  "due_now clock k e =
     (let k1 = (if ev_date e \<noteq> '''' then Suc k else k);
          k2 = (if start_day e < 8 then Suc k1 else k1);
          k3 = (if end_day e < 8 then Suc k2 else k2)
      in if ev_date e \<noteq> '''' \<and> now_x (clock k) \<noteq> ev_date e then (False, k1)
         else if start_day e < 8 \<and> now_w (clock k1) < start_day e then (False, k2)
         else if end_day e < 8 \<and> now_w (clock k2) > end_day e then (False, k3)
         else if now_H (clock k3) < start_hour e then (False, k3 + 1)
         else if now_H (clock (k3 + 1)) > end_hour e then (False, k3 + 2)
         else if now_M (clock (k3 + 2)) \<noteq> ev_minute e then (False, k3 + 3)
         else (True, k3 + 3))"

text \<open>Lines 321-331 with the clock: only a strike reads it, for the hour.\<close>

definition sound_now :: "(nat \<Rightarrow> timestamp) \<Rightarrow> nat \<Rightarrow> event \<Rightarrow> string \<times> nat" where
  "sound_now clock k e =
     (sound_of e (clock k), if ev_file e = ''Strike'' then Suc k else k)"

text \<open>
  The \<open>for\<close> loop of lines 294-331 from index \<open>i\<close> on, the next clock reading being the
  \<open>k\<close>-th, while the editor leaves the schedule alone. \<open>playsound\<close> is the audio
  collaborator: True when the call returns, False when it raises. The result is the list
  of files played to the end, and the index at which the loop was left by an exception,
  if it was.
\<close>

function scan ::
    "(string \<Rightarrow> bool) \<Rightarrow> (nat \<Rightarrow> timestamp) \<Rightarrow> event list \<Rightarrow> nat \<Rightarrow> nat
       \<Rightarrow> string list \<times> nat option" where
  "scan playsound clock schedule i k =
     (if i < length schedule then
        (if fst (due_now clock k (schedule ! i)) then
           (if playsound (fst (sound_now clock (snd (due_now clock k (schedule ! i)))
                                 (schedule ! i))) then
              (case scan playsound clock schedule (Suc i)
                      (snd (sound_now clock (snd (due_now clock k (schedule ! i)))
                              (schedule ! i))) of
                 (ps, r) \<Rightarrow>
                   (fst (sound_now clock (snd (due_now clock k (schedule ! i)))
                           (schedule ! i)) # ps, r))
            else ([], Some i))
         else scan playsound clock schedule (Suc i) (snd (due_now clock k (schedule ! i))))
      else ([], None))"
  by pat_completeness auto
termination
  by (relation "measure (\<lambda>(playsound, clock, schedule, i, k). length schedule - i)") auto

declare scan.simps [simp del]

text \<open>
  The handler of lines 339-345, entered with the index \<open>i\<close> the loop had reached: it
  prints, shows the schedule and pops the event at \<open>i\<close>. An exception inside the handler
  ends the thread (\<open>alive\<close> is False).
\<close>

record tick =
  played :: "string list"
  printed :: "message list"
  schedule_after :: "event list"
  alive :: bool

definition handler :: "string list \<Rightarrow> nat \<Rightarrow> event list \<Rightarrow> tick" where
  "handler ps i schedule =
     (case py_get schedule (int i) of
        Inl x \<Rightarrow>
          \<lparr>played = ps, printed = [Internal_error], schedule_after = schedule,
            alive = False\<rparr>
      | Inr e \<Rightarrow>
          (case show_schedule schedule of
             Inl x \<Rightarrow>
               \<lparr>played = ps,
                 printed = [Internal_error, Event_report (int i + 1) e,
                            Event_deleted (int i + 1)],
                 schedule_after = schedule, alive = False\<rparr>
           | Inr txt \<Rightarrow>
               (case py_pop schedule (int i) of
                  Inl x \<Rightarrow>
                    \<lparr>played = ps,
                      printed = [Internal_error, Event_report (int i + 1) e,
                                 Event_deleted (int i + 1), Schedule_text txt, Prompt],
                      schedule_after = schedule, alive = False\<rparr>
                | Inr s \<Rightarrow>
                    \<lparr>played = ps,
                      printed = [Internal_error, Event_report (int i + 1) e,
                                 Event_deleted (int i + 1), Schedule_text txt, Prompt],
                      schedule_after = s, alive = True\<rparr>)))"

text \<open>
  The body of the \<open>while True\<close> loop of \<open>playout\<close>, lines 292-345, while the editor leaves
  the schedule alone: the scan inside \<open>try\<close>, and the handler.
\<close>

definition playout_tick ::
    "(string \<Rightarrow> bool) \<Rightarrow> (nat \<Rightarrow> timestamp) \<Rightarrow> event list \<Rightarrow> tick" where
  "playout_tick playsound clock schedule =
     (case scan playsound clock schedule 0 0 of
        (ps, None) \<Rightarrow>
          \<lparr>played = ps, printed = [], schedule_after = schedule, alive = True\<rparr>
      | (ps, Some i) \<Rightarrow> handler ps i schedule)"

text \<open>
  The same loop with the editor thread at work. The schedule is the one shared list:
  \<open>range(0, len(schedule))\<close> fixes the number \<open>n\<close> of steps when the loop starts, and each
  step indexes the list as it is then, so an index past its end raises IndexError.
  \<open>edit i\<close> is what the editor does to the list while the event at index \<open>i\<close> is playing.
  The result also holds the list as the loop leaves it.
\<close>

function live_scan ::
    "(string \<Rightarrow> bool) \<Rightarrow> (nat \<Rightarrow> timestamp) \<Rightarrow> (nat \<Rightarrow> event list \<Rightarrow> event list) \<Rightarrow> nat
       \<Rightarrow> event list \<Rightarrow> nat \<Rightarrow> nat \<Rightarrow> string list \<times> nat option \<times> event list" where
  "live_scan playsound clock edit n schedule i k =
     (if i < n then
        (case py_get schedule (int i) of
           Inl x \<Rightarrow> ([], Some i, schedule)
         | Inr e \<Rightarrow>
             if fst (due_now clock k e) then
               (if playsound (fst (sound_now clock (snd (due_now clock k e)) e)) then
                  (case live_scan playsound clock edit n (edit i schedule) (Suc i)
                          (snd (sound_now clock (snd (due_now clock k e)) e)) of
                     (ps, r) \<Rightarrow> (fst (sound_now clock (snd (due_now clock k e)) e) # ps, r))
                else ([], Some i, schedule))
             else live_scan playsound clock edit n schedule (Suc i)
                    (snd (due_now clock k e)))
      else ([], None, schedule))"
  by pat_completeness auto
termination
  by (relation "measure (\<lambda>(playsound, clock, edit, n, schedule, i, k). n - i)") auto

declare live_scan.simps [simp del]

definition live_tick ::
    "(string \<Rightarrow> bool) \<Rightarrow> (nat \<Rightarrow> timestamp) \<Rightarrow> (nat \<Rightarrow> event list \<Rightarrow> event list)
       \<Rightarrow> event list \<Rightarrow> tick" where
  "live_tick playsound clock edit schedule =
     (case live_scan playsound clock edit (length schedule) schedule 0 0 of
        (ps, None, s) \<Rightarrow> \<lparr>played = ps, printed = [], schedule_after = s, alive = True\<rparr>
      | (ps, Some i, s) \<Rightarrow> handler ps i s)"


section \<open>The editor: one command line of \<open>main\<close>\<close>

text \<open>
  Strings are lists of ASCII characters. \<open>s.split(c)\<close> with a one-character separator cuts
  at every occurrence (so two adjacent separators give an empty field) and never returns
  the empty list; \<open>s.split(c, n)\<close> cuts at the first \<open>n\<close> occurrences only.
\<close>

fun split_on :: "char \<Rightarrow> string \<Rightarrow> string list" where
  "split_on c [] = [[]]"
| "split_on c (x # xs) =
     (if x = c then [] # split_on c xs
      else (x # hd (split_on c xs)) # tl (split_on c xs))"

fun split_max :: "char \<Rightarrow> nat \<Rightarrow> string \<Rightarrow> string list" where
  "split_max c 0 s = [s]"
| "split_max c (Suc n) [] = [[]]"
| "split_max c (Suc n) (x # xs) =
     (if x = c then [] # split_max c n xs
      else (x # hd (split_max c (Suc n) xs)) # tl (split_max c (Suc n) xs))"

definition is_digit :: "char \<Rightarrow> bool" where
  "is_digit c = (c \<in> set ''0123456789'')"

definition digit_val :: "char \<Rightarrow> int" where
  "digit_val c = int (of_char c) - 48"

text \<open>\<open>s.isnumeric()\<close> on an ASCII string: not empty, and decimal digits only.\<close>

definition isnumeric :: "string \<Rightarrow> bool" where
  "isnumeric s = (s \<noteq> [] \<and> list_all is_digit s)"

text \<open>
  \<open>int(s)\<close> on an ASCII string: white space around the number is dropped, one sign is
  allowed, and the digits may be grouped by single underscores; anything else raises
  ValueError. (The length limit on the digits that later Python versions add is not
  modelled.)
\<close>

definition py_space :: "char \<Rightarrow> bool" where
  "py_space c = (c \<in> set [CHR 0x09, CHR 0x0A, CHR 0x0B, CHR 0x0C, CHR 0x0D,
                            CHR 0x1C, CHR 0x1D, CHR 0x1E, CHR 0x1F, CHR 0x20])"

definition strip :: "string \<Rightarrow> string" where
  "strip s = rev (dropWhile py_space (rev (dropWhile py_space s)))"

fun digits_ok :: "string \<Rightarrow> bool" where
  "digits_ok [] = False"
| "digits_ok [c] = is_digit c"
| "digits_ok (c # d # cs) =
     (is_digit c \<and> (if d = CHR ''_'' then digits_ok cs else digits_ok (d # cs)))"

definition digits_value :: "string \<Rightarrow> int" where
  "digits_value s = foldl (\<lambda>a c. 10 * a + digit_val c) 0 (filter (\<lambda>c. c \<noteq> CHR ''_'') s)"

definition py_int :: "string \<Rightarrow> py_error + int" where
  "py_int s =
     (case strip s of
        [] \<Rightarrow> Inl ValueError
      | c # cs \<Rightarrow>
          if c = CHR ''-'' then (if digits_ok cs then Inr (- digits_value cs) else Inl ValueError)
          else if c = CHR ''+'' then (if digits_ok cs then Inr (digits_value cs) else Inl ValueError)
          else if digits_ok (c # cs) then Inr (digits_value (c # cs))
          else Inl ValueError)"

text \<open>\<open>s.lower()\<close> and \<open>s.endswith(suffix)\<close> on ASCII strings.\<close>

definition lower_char :: "char \<Rightarrow> char" where
  "lower_char c =
     (case map_of (zip ''ABCDEFGHIJKLMNOPQRSTUVWXYZ'' ''abcdefghijklmnopqrstuvwxyz'') c of
        None \<Rightarrow> c
      | Some l \<Rightarrow> l)"

definition lower :: "string \<Rightarrow> string" where
  "lower s = map lower_char s"

definition endswith :: "string \<Rightarrow> string \<Rightarrow> bool" where
  "endswith s suffix =
     (length suffix \<le> length s \<and> drop (length s - length suffix) s = suffix)"

text \<open>
  The file system as the editor sees it through \<open>open(file_name, "r")\<close> and
  \<open>f.readable()\<close>: \<open>Missing\<close> when \<open>open\<close> raises, \<open>Unreadable\<close> when it returns a file that is
  not readable, \<open>Readable\<close> otherwise.
\<close>

datatype file_state = Missing | Unreadable | Readable

text \<open>
  The result of a step of the parse: the messages printed, and the value when the parse
  goes on (\<open>None\<close> when the line is given up, by \<open>break\<close> or by the handler of line 232).
\<close>

type_synonym 'a parsed = "message list \<times> 'a option"

definition ok :: "'a \<Rightarrow> 'a parsed" where
  "ok a = ([], Some a)"

definition stop :: "message \<Rightarrow> 'a parsed" where
  "stop m = ([m], None)"

definition say :: "message \<Rightarrow> 'a \<Rightarrow> 'a parsed" where
  "say m a = ([m], Some a)"

definition raised :: "py_error + 'a \<Rightarrow> 'a parsed" where
  "raised r = (case r of Inl x \<Rightarrow> stop Unanticipated | Inr a \<Rightarrow> ok a)"

definition and_then :: "'a parsed \<Rightarrow> ('a \<Rightarrow> 'b parsed) \<Rightarrow> 'b parsed" where
  "and_then p f =
     (case p of
        (ms, None) \<Rightarrow> (ms, None)
      | (ms, Some a) \<Rightarrow> (case f a of (ms', r) \<Rightarrow> (ms @ ms', r)))"

text \<open>Lines 93-134: the second field, a hard date or a weekday or a weekday range.\<close>

definition parse_days :: "string \<Rightarrow> (string \<times> int \<times> int) parsed" where
  "parse_days f1 =
     (if CHR ''/'' \<in> set f1 then
        (if length f1 \<noteq> 8 then stop Err_date
         else
           and_then (raised (py_get (split_on CHR ''/'' f1) 0)) (\<lambda>m.
           and_then (raised (py_int m)) (\<lambda>month.
           and_then (raised (py_get (split_on CHR ''/'' f1) 1)) (\<lambda>d.
           and_then (raised (py_int d)) (\<lambda>day.
           and_then (raised (py_get (split_on CHR ''/'' f1) 2)) (\<lambda>y.
           and_then (raised (py_int y)) (\<lambda>year.
             if month < 0 \<or> month > 12 then stop (Err_month month)
             else if day < 0 \<or> day > 31 then stop (Err_day day)
             else if year < 21 then stop (Err_year year)
             else ok (f1, 8, 8))))))))
      else
        (let days = split_on CHR ''-'' f1;
             start_day = day_dict (days ! 0);
             end_day = (if length days = 2 then day_dict (days ! 1) else start_day)
         in if length days > 2 then stop Err_weekday_list
            else (case start_day of
                    None \<Rightarrow> stop Err_weekday
                  | Some a \<Rightarrow>
                      (case end_day of
                         None \<Rightarrow> stop Err_weekday
                       | Some b \<Rightarrow> ok ('''', a, b)))))"

text \<open>
  Lines 136-163: the third field, an hour or an hour range. The test of the end hour
  against 0..23 prints its message and goes on (line 163 has no \<open>break\<close>).
\<close>

definition parse_hours :: "string \<Rightarrow> (int \<times> int) parsed" where
  "parse_hours hours =
     (let hs = split_on CHR ''-'' hours;
          start_hour = hs ! 0;
          end_hour = (if length hs = 2 then hs ! 1 else start_hour)
      in if length hs > 2 then stop Err_hour_range
         else if \<not> isnumeric start_hour then stop (Err_start_numeric start_hour)
         else
           and_then (raised (py_int start_hour)) (\<lambda>sh.
             if sh < 0 \<or> sh > 23 then stop (Err_start_hour sh)
             else if \<not> isnumeric end_hour then stop (Err_end_numeric end_hour)
             else
               and_then (raised (py_int end_hour)) (\<lambda>eh.
                 if eh < 0 \<or> eh > 23 then say (Err_end_hour eh) (sh, eh)
                 else ok (sh, eh))))"

text \<open>
  Lines 165-174: the fourth field. \<open>minute.isnumeric\<close> is the method itself, which is
  true, so \<open>int(minute)\<close> is always tried.
\<close>

definition parse_minute :: "string \<Rightarrow> int parsed" where
  "parse_minute f3 =
     and_then (raised (py_int f3)) (\<lambda>minute.
       if minute < 0 \<or> minute > 59 then stop (Err_minute minute) else ok minute)"

text \<open>
  Lines 177-208: the fifth field. For the strike keyword the twelve strike files are
  tried in turn, and the \<open>break\<close> after the message leaves the \<open>for\<close> loop only; for any other
  name the file must open.
\<close>

definition strike_files :: "string list" where
  "strike_files = map (\<lambda>i. file_path @ ''Strike'' @ str_int (int i + 1) @ ''.mp3'') [0..<12]"

definition check_file :: "(string \<Rightarrow> file_state) \<Rightarrow> string \<Rightarrow> unit parsed" where
  "check_file fs f =
     (if lower f = ''strike'' then
        (case find (\<lambda>n. fs n \<noteq> Readable) strike_files of
           None \<Rightarrow> ok ()
         | Some n \<Rightarrow> say (Err_missing n) ())
      else
        (let file_name = (if endswith (lower f) ''.mp3'' then file_path @ f
                          else file_path @ f @ ''.mp3'')
         in case fs file_name of
              Missing \<Rightarrow> stop (Err_not_found file_name)
            | Unreadable \<Rightarrow> stop (Err_not_readable file_name)
            | Readable \<Rightarrow> ok ()))"

text \<open>Lines 86-223 for a command of at least five fields: the event it describes.\<close>

definition parse_event :: "(string \<Rightarrow> file_state) \<Rightarrow> string \<Rightarrow> event parsed" where
  "parse_event fs command =
     (let fields = split_on CHR '' '' command in
      and_then (parse_days (fields ! 1)) (\<lambda>(date, sd, ed).
      and_then (parse_hours (fields ! 2)) (\<lambda>(sh, eh).
      and_then (parse_minute (fields ! 3)) (\<lambda>minute.
      and_then (raised (py_get (split_max CHR '' '' 4 command) 4)) (\<lambda>f.
      and_then (check_file fs f) (\<lambda>u.
        ok \<lparr>ev_date = date, start_day = sd, end_day = ed, start_hour = sh,
            end_hour = eh, ev_minute = minute, ev_file = f\<rparr>))))))"

section \<open>The store operations\<close>

text \<open>
  Lines 226-229: append the event when the line number is past the end, else assign it
  at index \<open>line_number - 1\<close>.
\<close>

definition upsert_at :: "int \<Rightarrow> event \<Rightarrow> event list \<Rightarrow> py_error + event list" where
  "upsert_at line_number ev schedule =
     (if line_number - 1 \<ge> int (length schedule) then Inr (schedule @ [ev])
      else py_set schedule (line_number - 1) ev)"

text \<open>
  Lines 77-85: a line number alone. Nothing is tried on an empty schedule; otherwise the
  event at index \<open>line_number - 1\<close> is popped, and a failing \<open>pop\<close> prints the message.
\<close>

definition delete_at :: "int \<Rightarrow> event list \<Rightarrow> message list \<times> event list" where
  "delete_at line_number schedule =
     (if length schedule > 0 then
        (case py_pop schedule (line_number - 1) of
           Inl x \<Rightarrow> ([No_line line_number], schedule)
         | Inr s \<Rightarrow> ([], s))
      else ([], schedule))"

text \<open>One pass through the body of the inner \<open>while\<close> loop of \<open>main\<close>, lines 58-233.\<close>

definition command_step ::
    "(string \<Rightarrow> file_state) \<Rightarrow> string \<Rightarrow> event list \<Rightarrow> message list \<times> event list" where
  "command_step fs command schedule =
     (let fields = split_on CHR '' '' command in
      if fields ! 0 = ''?'' then ([Instructions], schedule)
      else if fields ! 0 = '''' then
        (case show_schedule schedule of
           Inl x \<Rightarrow> ([Unanticipated], schedule)
         | Inr txt \<Rightarrow> ([Schedule_text txt], schedule))
      else if \<not> isnumeric (fields ! 0) then ([Err_line_number], schedule)
      else
        (case py_int (fields ! 0) of
           Inl x \<Rightarrow> ([Unanticipated], schedule)
         | Inr line_number \<Rightarrow>
             if length fields = 1 then delete_at line_number schedule
             else if length fields < 5 then ([Err_five_items], schedule)
             else
               (case parse_event fs command of
                  (ms, None) \<Rightarrow> (ms, schedule)
                | (ms, Some ev) \<Rightarrow>
                    (case upsert_at line_number ev schedule of
                       Inl x \<Rightarrow> (ms @ [Unanticipated], schedule)
                     | Inr s \<Rightarrow> (ms, s)))))"

section \<open>Facts about Python indexing\<close>

lemma py_norm_inside: "0 \<le> i \<Longrightarrow> i < int (length xs) \<Longrightarrow> py_norm xs i = Inr (nat i)"
  by (simp add: py_norm_def Let_def)

lemma py_norm_past: "int (length xs) \<le> i \<Longrightarrow> py_norm xs i = Inl IndexError"
  by (simp add: py_norm_def Let_def)

lemma py_norm_minus_one: "xs \<noteq> [] \<Longrightarrow> py_norm xs (- 1) = Inr (length xs - 1)"
  by (cases xs) (simp_all add: py_norm_def Let_def)

section \<open>The matcher\<close>




text \<open>
  Claim C2: for an event with no hard date and a weekday range \<open>[a, b]\<close> with
  \<open>0 \<le> a \<le> b \<le> 6\<close>, the event is due at a time exactly when the weekday of the time lies
  in \<open>[a, b]\<close>, its hour lies in the event's hour range (both ends included) and its minute
  is the event's minute.
\<close>

theorem is_due_weekday_range:
  assumes "ev_date e = ''''"
    and "0 \<le> start_day e" and "start_day e \<le> end_day e" and "end_day e \<le> 6"
  shows "is_due e t \<longleftrightarrow>
           start_day e \<le> now_w t \<and> now_w t \<le> end_day e \<and>
           start_hour e \<le> now_H t \<and> now_H t \<le> end_hour e \<and>
           now_M t = ev_minute e"
  using assms by (auto simp: is_due_def)

theorem is_due_weekday_range_witness:
  "is_due \<lparr>ev_date = '''', start_day = 1, end_day = 5, start_hour = 9, end_hour = 17,
            ev_minute = 15, ev_file = ''Quarter''\<rparr>
          \<lparr>now_x = ''07/07/21'', now_w = 3, now_H = 9, now_M = 15\<rparr>
   \<and> \<not> is_due \<lparr>ev_date = '''', start_day = 1, end_day = 5, start_hour = 9, end_hour = 17,
            ev_minute = 15, ev_file = ''Quarter''\<rparr>
          \<lparr>now_x = ''07/04/21'', now_w = 0, now_H = 9, now_M = 15\<rparr>"
  using is_due_weekday_range
    [of "\<lparr>ev_date = '''', start_day = 1, end_day = 5, start_hour = 9, end_hour = 17,
            ev_minute = 15, ev_file = ''Quarter''\<rparr>"
        "\<lparr>now_x = ''07/07/21'', now_w = 3, now_H = 9, now_M = 15\<rparr>"]
    is_due_weekday_range
    [of "\<lparr>ev_date = '''', start_day = 1, end_day = 5, start_hour = 9, end_hour = 17,
            ev_minute = 15, ev_file = ''Quarter''\<rparr>"
        "\<lparr>now_x = ''07/04/21'', now_w = 0, now_H = 9, now_M = 15\<rparr>"]
  by simp

section \<open>The strike hour\<close>

lemma strike_hour_mod: "strike_hour h mod 12 = h mod 12"
  by (simp add: strike_hour_def Let_def)

lemma strike_hour_range: "1 \<le> strike_hour h \<and> strike_hour h \<le> 12"
proof -
  have "0 \<le> h mod 12" and "h mod 12 < 12" by simp_all
  then show ?thesis by (auto simp: strike_hour_def Let_def)
qed

lemma strike_names:
  "str_int (strike_hour 0) = ''12'' \<and> str_int (strike_hour 12) = ''12'' \<and>
   str_int (strike_hour 13) = ''1''"
  by code_simp

text \<open>
  Claim C8: the strike number of a clock hour is the number between 1 and 12 that is
  congruent to the hour modulo 12 (so 0 becomes 12); it names the strike file played;
  hours 0 and 12 both give "12" and hour 13 gives "1".
\<close>

theorem strike_hour_expansion:
  "strike_hour h mod 12 = h mod 12 \<and> 1 \<le> strike_hour h \<and> strike_hour h \<le> 12 \<and>
   sound_of (e\<lparr>ev_file := ''Strike''\<rparr>) t =
     file_path @ ''Strike'' @ str_int (strike_hour (now_H t)) @ ''.mp3'' \<and>
   str_int (strike_hour 0) = ''12'' \<and> str_int (strike_hour 12) = ''12'' \<and>
   str_int (strike_hour 13) = ''1''"
  using strike_hour_mod [of h] strike_hour_range [of h] strike_names
  by (simp add: sound_of_def)

section \<open>Insert or replace\<close>

text \<open>
  Claim C6: for a position \<open>pos \<ge> 1\<close>, the insert-or-replace of lines 226-229 never raises;
  it appends the event when \<open>pos\<close> is greater than the length of the schedule and replaces
  the event at position \<open>pos\<close> otherwise; and when \<open>pos\<close> is at most the length plus one, the
  event is afterwards at index \<open>pos - 1\<close>.
\<close>

theorem upsert_at_positive:
  assumes "1 \<le> pos"
  shows "\<exists>s'. upsert_at pos r s = Inr s' \<and>
           (int (length s) < pos \<longrightarrow> s' = s @ [r]) \<and>
           (pos \<le> int (length s) \<longrightarrow> s' = s[nat (pos - 1) := r]) \<and>
           (pos \<le> int (length s) + 1 \<longrightarrow>
              nat (pos - 1) < length s' \<and> s' ! nat (pos - 1) = r)"
proof (cases "int (length s) < pos")
  case True
  then have "upsert_at pos r s = Inr (s @ [r])"
    by (simp add: upsert_at_def)
  moreover have "pos \<le> int (length s) + 1 \<Longrightarrow> nat (pos - 1) = length s"
    using True by simp
  ultimately show ?thesis
    using True by auto
next
  case False
  then have le: "pos \<le> int (length s)"
    by simp
  then have "py_norm s (pos - 1) = Inr (nat (pos - 1))"
    using assms by (intro py_norm_inside) auto
  then have "upsert_at pos r s = Inr (s[nat (pos - 1) := r])"
    using le by (simp add: upsert_at_def py_set_def)
  moreover have "nat (pos - 1) < length s"
    using le assms by auto
  ultimately show ?thesis
    using False by auto
qed

theorem upsert_at_positive_witness:
  "upsert_at 2 (default_schedule ! 4) default_schedule
     = Inr (default_schedule[1 := default_schedule ! 4])
   \<and> upsert_at 9 (default_schedule ! 4) default_schedule
     = Inr (default_schedule @ [default_schedule ! 4])"
  using upsert_at_positive [of 2 "default_schedule ! 4" default_schedule]
    upsert_at_positive [of 9 "default_schedule ! 4" default_schedule]
  by (auto simp: default_schedule_def)

section \<open>Delete\<close>

lemma delete_at_empty: "delete_at pos [] = ([], [])"
  by (simp add: delete_at_def)

lemma delete_at_past:
  "s \<noteq> [] \<Longrightarrow> int (length s) < pos \<Longrightarrow> delete_at pos s = ([No_line pos], s)"
  by (simp add: delete_at_def py_pop_def py_norm_past)

lemma delete_at_inside:
  assumes "1 \<le> pos" and "pos \<le> int (length s)"
  shows "delete_at pos s = ([], take (nat (pos - 1)) s @ drop (nat pos) s)"
proof -
  have "py_norm s (pos - 1) = Inr (nat (pos - 1))"
    using assms by (intro py_norm_inside) auto
  moreover have "Suc (nat (pos - 1)) = nat pos"
    using assms by simp
  moreover have "s \<noteq> []"
    using assms by auto
  ultimately show ?thesis
    by (simp add: delete_at_def py_pop_def)
qed

lemma delete_at_zero: "s \<noteq> [] \<Longrightarrow> delete_at 0 s = ([], butlast s)"
  by (simp add: delete_at_def py_pop_def py_norm_minus_one butlast_conv_take)

lemma command_zero: "s \<noteq> [] \<Longrightarrow> command_step fs ''0'' s = delete_at 0 s"
  by (simp add: command_step_def isnumeric_def is_digit_def py_int_def strip_def
      py_space_def digits_value_def digit_val_def)

text \<open>
  Claim C7, as the program has it. The claim says that a delete on an empty schedule
  fails with the not-found report. Line 79 guards the \<open>pop\<close> by \<open>len(schedule) > 0\<close>: on an
  empty schedule nothing is tried and nothing is printed.
\<close>

theorem delete_on_empty_is_silent:
  "delete_at 1 [] = ([], []) \<and> fst (delete_at 1 []) \<noteq> [No_line 1]"
  by (simp add: delete_at_def)

text \<open>
  Claim C7, amended: for a position \<open>pos \<ge> 1\<close>, the delete prints the "No line" report
  exactly when the schedule is not empty and \<open>pos\<close> is greater than its length; on an empty
  schedule it prints nothing; in both cases the schedule is left as it was. Otherwise
  the delete succeeds: the event at position \<open>pos\<close> is removed and the length goes down by
  one.
\<close>

theorem delete_at_positive:
  assumes "1 \<le> pos"
  shows "(fst (delete_at pos s) = [No_line pos] \<longleftrightarrow> s \<noteq> [] \<and> int (length s) < pos) \<and>
         (s = [] \<or> int (length s) < pos \<longrightarrow> snd (delete_at pos s) = s) \<and>
         (s = [] \<longrightarrow> fst (delete_at pos s) = []) \<and>
         (pos \<le> int (length s) \<longrightarrow>
            delete_at pos s = ([], take (nat (pos - 1)) s @ drop (nat pos) s) \<and>
            Suc (length (snd (delete_at pos s))) = length s)"
proof (cases "s = []")
  case True
  then show ?thesis
    using assms by (simp add: delete_at_empty)
next
  case ne: False
  show ?thesis
  proof (cases "int (length s) < pos")
    case True
    then show ?thesis
      using ne by (simp add: delete_at_past)
  next
    case False
    then have le: "pos \<le> int (length s)"
      by simp
    have "nat (pos - 1) < length s" and "nat pos \<le> length s"
      and "nat pos = Suc (nat (pos - 1))"
      using le assms by auto
    then show ?thesis
      using le False ne by (simp add: delete_at_inside [OF assms le])
  qed
qed

theorem delete_at_positive_witness:
  "delete_at 2 default_schedule
     = ([], [default_schedule ! 0, default_schedule ! 2, default_schedule ! 3,
             default_schedule ! 4])
   \<and> delete_at 6 default_schedule = ([No_line 6], default_schedule)
   \<and> delete_at 6 [] = ([], [])"
  using delete_at_positive [of 2 default_schedule] delete_at_positive [of 6 default_schedule]
    delete_at_positive [of 6 "[]"]
  by (auto simp: default_schedule_def prod_eq_iff)

text \<open>
  Claim C10: on a schedule that is not empty, the command \<open>0\<close> (a line number alone, so a
  delete) prints no "No line" report: \<open>pop(-1)\<close> removes the last event, and the length
  goes down by one.
\<close>

theorem delete_line_zero:
  assumes "s \<noteq> []"
  shows "command_step fs ''0'' s = ([], butlast s) \<and>
         fst (command_step fs ''0'' s) \<noteq> [No_line 0] \<and>
         Suc (length (snd (command_step fs ''0'' s))) = length s"
  using assms by (simp add: command_zero delete_at_zero)

theorem delete_line_zero_witness:
  "command_step (\<lambda>n. Missing) ''0'' default_schedule
     = ([], [default_schedule ! 0, default_schedule ! 1, default_schedule ! 2,
             default_schedule ! 3])"
  using delete_line_zero [of default_schedule "\<lambda>n. Missing"]
  by (simp add: default_schedule_def)

section \<open>A failing playout\<close>









section \<open>What the editor stores\<close>

text \<open>
  Claim C4, on the program: the strike keyword typed in capitals. With the twelve strike
  files in place the command is accepted without a message, and the event stored keeps
  the user's spelling (line 223 appends \<open>file\<close>, not the \<open>"Strike"\<close> of line 181). The
  playout thread compares with \<open>"Strike"\<close> exactly (line 321), so when the event is due it
  asks for a file named after the user's string.
\<close>

theorem strike_keyword_in_capitals:
  "command_step (\<lambda>n. if n \<in> set strike_files then Readable else Missing)
     ''1 su 0-23 0 STRIKE'' []
     = ([], [\<lparr>ev_date = '''', start_day = 0, end_day = 0, start_hour = 0, end_hour = 23,
               ev_minute = 0, ev_file = ''STRIKE''\<rparr>])
   \<and> is_due \<lparr>ev_date = '''', start_day = 0, end_day = 0, start_hour = 0, end_hour = 23,
              ev_minute = 0, ev_file = ''STRIKE''\<rparr>
            \<lparr>now_x = ''07/04/21'', now_w = 0, now_H = 9, now_M = 0\<rparr>
   \<and> sound_of \<lparr>ev_date = '''', start_day = 0, end_day = 0, start_hour = 0, end_hour = 23,
                ev_minute = 0, ev_file = ''STRIKE''\<rparr>
              \<lparr>now_x = ''07/04/21'', now_w = 0, now_H = 9, now_M = 0\<rparr>
       = ''/home/dave/Carillon/STRIKE.mp3''
   \<and> played (playout_tick (\<lambda>n. True)
        (\<lambda>k. \<lparr>now_x = ''07/04/21'', now_w = 0, now_H = 9, now_M = 0\<rparr>)
        (snd (command_step (\<lambda>n. if n \<in> set strike_files then Readable else Missing)
                ''1 su 0-23 0 STRIKE'' [])))
       = [''/home/dave/Carillon/STRIKE.mp3'']"
  by code_simp

text \<open>
  Claim C5, on the program: an end hour of 99. The message of line 163 is printed, but
  the parse goes on, and the event is stored with the end hour 99. (A start hour of 99
  is refused: line 155 has the \<open>break\<close> that line 163 lacks.)
\<close>

theorem end_hour_out_of_range_is_stored:
  "command_step (\<lambda>n. if n = ''/home/dave/Carillon/Hour.mp3'' then Readable else Missing)
     ''6 su 5-99 0 Hour'' default_schedule
     = ([Err_end_hour 99],
        default_schedule @
        [\<lparr>ev_date = '''', start_day = 0, end_day = 0, start_hour = 5, end_hour = 99,
           ev_minute = 0, ev_file = ''Hour''\<rparr>])
   \<and> command_step (\<lambda>n. if n = ''/home/dave/Carillon/Hour.mp3'' then Readable else Missing)
     ''6 su 99 0 Hour'' default_schedule
     = ([Err_start_hour 99], default_schedule)"
  by code_simp

end
